theory Spec2Isabelle
  imports Complex_Main "HOL-Library.AList" "HOL-Library.Char_ord" "HOL-Library.List_Lexorder"
begin

section \<open>lib/supabase.ts: the backend client singleton\<close>

text \<open>
  The module reads two variables of \<^verbatim>\<open>process.env\<close>, throws when one of them is falsy
  and otherwise calls the library's \<^verbatim>\<open>createClient\<close>. The environment is the list of
  the variables that are set, each with its value (a variable that is not listed reads as
  \<^verbatim>\<open>undefined\<close>, here \<open>None\<close>); the thrown \<^verbatim>\<open>Error\<close> is the left summand of the
  result.
\<close>

datatype error = Error string

text \<open>
  \<^verbatim>\<open>createClient\<close> belongs to the library \<^verbatim>\<open>@supabase/supabase-js\<close>, not to this
  repository, and the module calls it unguarded: whatever it does with the two texts,
  returning a client or throwing an error of its own (it refuses a URL that is no http(s)
  URL), is the outcome of the module. It is therefore a parameter of the model, a function
  from the two texts to the error it throws or the client it returns.
\<close>

text \<open>JavaScript's \<^verbatim>\<open>!v\<close> on a value of type \<^verbatim>\<open>string | undefined\<close>.\<close>

fun falsy :: "string option \<Rightarrow> bool" where
  "falsy None = True"
| "falsy (Some s) = (s = [])"

definition NEXT_PUBLIC_SUPABASE_URL :: string where
  "NEXT_PUBLIC_SUPABASE_URL = ''NEXT_PUBLIC_SUPABASE_URL''"

definition NEXT_PUBLIC_SUPABASE_ANON_KEY :: string where
  "NEXT_PUBLIC_SUPABASE_ANON_KEY = ''NEXT_PUBLIC_SUPABASE_ANON_KEY''"

definition missing_env_message :: string where
  "missing_env_message =
     ''Missing Supabase environment variables. '' @
     ''Ensure NEXT_PUBLIC_SUPABASE_URL and NEXT_PUBLIC_SUPABASE_ANON_KEY are set in .env.local at the project root.''"

text \<open>
  The value the module exports as \<^verbatim>\<open>supabase\<close>, or the error that ends its top level. The
  two constants are declared with a non-null assertion, which checks nothing when the
  module runs; the last case cannot be reached and only makes the function total.
\<close>

definition supabase ::
  "(string \<Rightarrow> string \<Rightarrow> error + 'client) \<Rightarrow> (string \<times> string) list \<Rightarrow> error + 'client" where
  "supabase createClient env =
     (let supabaseUrl = map_of env NEXT_PUBLIC_SUPABASE_URL;
          supabaseAnonKey = map_of env NEXT_PUBLIC_SUPABASE_ANON_KEY
      in if falsy supabaseUrl \<or> falsy supabaseAnonKey
         then Inl (Error missing_env_message)
         else (case (supabaseUrl, supabaseAnonKey) of
                 (Some url, Some key) \<Rightarrow> createClient url key
               | _ \<Rightarrow> Inl (Error missing_env_message)))"

section \<open>The classifier page: \<^verbatim>\<open>handleClassify\<close>\<close>

text \<open>
  \<^verbatim>\<open>WasteCategory\<close> is a union of four string literals and \<^verbatim>\<open>null\<close>: a
  \<open>string option\<close>, \<open>None\<close> for \<^verbatim>\<open>null\<close>.
\<close>

type_synonym WasteCategory = "string option"

record File =
  file_name :: string
  file_type :: string

record classifier_state =
  selectedFile :: "File option"
  previewUrl :: "string option"
  isLoading :: bool
  result :: WasteCategory
  isDragging :: bool

definition mockCategories :: "string list" where
  "mockCategories = [''Biodegradable'', ''Recyclable'', ''Residual'', ''Special Waste'']"

text \<open>
  Reading a JavaScript array at an integer index: outside the array the read gives
  \<^verbatim>\<open>undefined\<close>, which the state setter would store as an absent result.
\<close>

definition js_index :: "'a list \<Rightarrow> int \<Rightarrow> 'a option" where
  "js_index xs i = (if 0 \<le> i \<and> i < int (length xs) then Some (xs ! nat i) else None)"

text \<open>The artificial delay of the mock, in milliseconds.\<close>

definition mock_delay_ms :: nat where
  "mock_delay_ms = 2000"

text \<open>
  \<^verbatim>\<open>handleFileSelect\<close>: \<open>url\<close> is what \<^verbatim>\<open>URL.createObjectURL(file)\<close> returned.
\<close>

definition handleFileSelect :: "classifier_state \<Rightarrow> File \<Rightarrow> string \<Rightarrow> classifier_state" where
  "handleFileSelect st file url =
     st\<lparr>selectedFile := Some file, result := None, previewUrl := Some url\<rparr>"

text \<open>
  \<^verbatim>\<open>handleClassify\<close>: \<open>rnd\<close> is the value \<^verbatim>\<open>Math.random()\<close> returned, a number in
  \<open>[0, 1)\<close>. A double is a real number and multiplying one below 1 by 4 is exact, so the
  real product and its floor are the ones JavaScript computes. The function returns the
  state once the handler has finished and the time it waited.
\<close>

definition handleClassify :: "classifier_state \<Rightarrow> real \<Rightarrow> classifier_state \<times> nat" where
  "handleClassify st rnd =
     (case selectedFile st of
        None \<Rightarrow> (st, 0)
      | Some file \<Rightarrow>
          (let st1 = st\<lparr>isLoading := True, result := None\<rparr>;
               st2 = st1\<lparr>result := js_index mockCategories \<lfloor>rnd * real (length mockCategories)\<rfloor>\<rparr>
           in (st2\<lparr>isLoading := False\<rparr>, mock_delay_ms)))"

section \<open>components/Navbar.tsx\<close>

record nav_link =
  href :: string
  label :: string

definition navLinks :: "nav_link list" where
  "navLinks =
     [\<lparr>href = ''/'', label = ''Home''\<rparr>,
      \<lparr>href = ''/about'', label = ''About''\<rparr>,
      \<lparr>href = ''/classifier'', label = ''Classifier''\<rparr>,
      \<lparr>href = ''/volunteer'', label = ''Volunteer''\<rparr>]"

text \<open>A rendered \<^verbatim>\<open>Link\<close> element: its target, its text and its class attribute.\<close>

record rendered_link =
  link_href :: string
  link_text :: string
  className :: string

definition desktop_active :: string where
  "desktop_active = ''text-green-600 border-b-2 border-green-500 pb-0.5''"

definition desktop_inactive :: string where
  "desktop_inactive = ''text-gray-600 hover:text-green-600''"

definition mobile_active :: string where
  "mobile_active = ''text-green-600 bg-green-50''"

definition mobile_inactive :: string where
  "mobile_inactive = ''text-gray-600 hover:text-green-600 hover:bg-green-50''"

definition desktop_link :: "string \<Rightarrow> nav_link \<Rightarrow> rendered_link" where
  "desktop_link pathname link =
     \<lparr>link_href = href link, link_text = label link,
      className = ''text-sm font-medium transition-colors '' @
        (if pathname = href link then desktop_active else desktop_inactive)\<rparr>"

definition mobile_link :: "string \<Rightarrow> nav_link \<Rightarrow> rendered_link" where
  "mobile_link pathname link =
     \<lparr>link_href = href link, link_text = label link,
      className = ''block px-2 py-2 rounded-md text-sm font-medium '' @
        (if pathname = href link then mobile_active else mobile_inactive)\<rparr>"

text \<open>
  What the component renders of its navigation links for a pathname and a menu state:
  the desktop row always, the mobile dropdown only while the menu is open.
\<close>

record navbar_view =
  desktop_links :: "rendered_link list"
  mobile_links :: "rendered_link list option"

definition Navbar :: "string \<Rightarrow> bool \<Rightarrow> navbar_view" where
  "Navbar pathname menuOpen =
     \<lparr>desktop_links = map (desktop_link pathname) navLinks,
      mobile_links = (if menuOpen then Some (map (mobile_link pathname) navLinks) else None)\<rparr>"

text \<open>Whether a rendered link carries the active styling of its row.\<close>

definition desktop_styled_active :: "rendered_link \<Rightarrow> bool" where
  "desktop_styled_active l =
     (className l = ''text-sm font-medium transition-colors '' @ desktop_active)"

definition mobile_styled_active :: "rendered_link \<Rightarrow> bool" where
  "mobile_styled_active l =
     (className l = ''block px-2 py-2 rounded-md text-sm font-medium '' @ mobile_active)"

text \<open>
  The two click handlers on the menu state: the hamburger button calls
  \<^verbatim>\<open>setMenuOpen(!menuOpen)\<close>, every link of the dropdown calls \<^verbatim>\<open>setMenuOpen(false)\<close>.
  Each takes the state of the render it was created in and gives the next state.
\<close>

definition hamburger_onClick :: "bool \<Rightarrow> bool" where
  "hamburger_onClick menuOpen = (\<not> menuOpen)"

definition mobile_link_onClick :: "bool \<Rightarrow> bool" where
  "mobile_link_onClick menuOpen = False"

section \<open>Rows of the backend tables\<close>

text \<open>
  A row of a backend table reaches the page as a JavaScript object whose values are
  strings: an association list from column names to values, a column that is not listed
  being \<^verbatim>\<open>null\<close> or \<^verbatim>\<open>undefined\<close>. The types \<^verbatim>\<open>Profile\<close>, \<^verbatim>\<open>Event\<close>,
  \<^verbatim>\<open>Participant\<close> and \<^verbatim>\<open>Upload\<close> of lib/supabase.ts exist at compile time only and
  decide nothing when the page runs: a row holds the columns the backend sent, an insert
  sends the keys its object literal lists.
\<close>

type_synonym row = "(string \<times> string) list"

definition col :: "row \<Rightarrow> string \<Rightarrow> string option" where
  "col r c = map_of r c"

text \<open>The values the comment on \<^verbatim>\<open>Participant.status\<close> declares for that attribute.\<close>

definition Participant_status :: "string list" where
  "Participant_status = [''pending'', ''accepted'', ''declined'']"

text \<open>
  An object literal: a key whose value is \<^verbatim>\<open>undefined\<close> is dropped when the object is
  sent. \<open>assign changes r\<close> is the spread \<^verbatim>\<open>{...r, ...changes}\<close>.
\<close>

definition object :: "(string \<times> string option) list \<Rightarrow> row" where
  "object kvs = concat (map (\<lambda>(k, v). case v of None \<Rightarrow> [] | Some x \<Rightarrow> [(k, x)]) kvs)"

definition assign :: "row \<Rightarrow> row \<Rightarrow> row" where
  "assign changes r = fold (\<lambda>(k, v). AList.update k v) changes r"

section \<open>The hosted backend\<close>

text \<open>
  The tables, the object storage and the client library that reaches them are not part
  of the repository. They are modelled as a relational store: named tables of rows and
  named buckets of stored files. \<open>failing\<close> lists the tables and buckets whose requests
  the backend currently answers with an error, each with the error's message (a network
  failure, an access rule, a violated constraint); \<open>requests\<close> is the log of every
  request the page has sent, in the order sent.
\<close>

type_synonym filters = "(string \<times> string option) list"

datatype request =
    Select string filters
  | Count string filters
  | Insert string row
  | Update string row filters
  | StorageUpload string string

record backend =
  tables :: "(string \<times> row list) list"
  storage :: "(string \<times> (string \<times> File) list) list"
  failing :: "(string \<times> string) list"
  requests :: "request list"

definition rows_of :: "backend \<Rightarrow> string \<Rightarrow> row list" where
  "rows_of b t = (case map_of (tables b) t of None \<Rightarrow> [] | Some rs \<Rightarrow> rs)"

definition sent :: "request \<Rightarrow> backend \<Rightarrow> backend" where
  "sent rq b = b\<lparr>requests := requests b @ [rq]\<rparr>"

text \<open>
  \<^verbatim>\<open>.eq(column, value)\<close>: a row passes when the column holds exactly that value; an
  \<^verbatim>\<open>undefined\<close> value passes no row.
\<close>

definition matches :: "filters \<Rightarrow> row \<Rightarrow> bool" where
  "matches fs r = list_all (\<lambda>(c, v). case v of None \<Rightarrow> False | Some x \<Rightarrow> col r c = Some x) fs"

text \<open>
  \<^verbatim>\<open>.order(column, { ascending })\<close>. The backend orders by the column's value, nulls
  last when ascending and first when descending; timestamps are compared as their text,
  which orders timestamps written in one format and one zone by their instant.
\<close>

fun col_le :: "string option \<Rightarrow> string option \<Rightarrow> bool" where
  "col_le (Some x) (Some y) = (x \<le> y)"
| "col_le _ None = True"
| "col_le None (Some y) = False"

fun insert_by :: "(row \<Rightarrow> row \<Rightarrow> bool) \<Rightarrow> row \<Rightarrow> row list \<Rightarrow> row list" where
  "insert_by le x [] = [x]"
| "insert_by le x (y # ys) = (if le x y then x # y # ys else y # insert_by le x ys)"

definition order_by :: "string \<Rightarrow> bool \<Rightarrow> row list \<Rightarrow> row list" where
  "order_by c ascending rs =
     foldr (insert_by (\<lambda>x y. if ascending then col_le (col x c) (col y c)
                               else col_le (col y c) (col x c))) rs []"

text \<open>
  \<^verbatim>\<open>from(t).select(...).eq(...)\<close>: the data, or the error's message. The page reads of a
  selected row only the columns it asked for, so the projection of \<^verbatim>\<open>select('email')\<close>
  is not modelled.
\<close>

definition select_rows :: "backend \<Rightarrow> string \<Rightarrow> filters \<Rightarrow> (string + row list) \<times> backend" where
  "select_rows b t fs =
     (case map_of (failing b) t of
        Some e \<Rightarrow> Inl e
      | None \<Rightarrow> Inr (filter (matches fs) (rows_of b t)),
      sent (Select t fs) b)"

text \<open>\<^verbatim>\<open>.single()\<close>: the row when exactly one row was selected, otherwise no data.\<close>

definition single :: "(string + row list) \<Rightarrow> row option" where
  "single res = (case res of Inr [r] \<Rightarrow> Some r | _ \<Rightarrow> None)"

text \<open>
  \<^verbatim>\<open>select('*', { count: 'exact', head: true })\<close>: the number of selected rows, or
  \<^verbatim>\<open>null\<close> when the request fails.
\<close>

definition count_rows :: "backend \<Rightarrow> string \<Rightarrow> filters \<Rightarrow> nat option \<times> backend" where
  "count_rows b t fs =
     (case map_of (failing b) t of
        Some e \<Rightarrow> None
      | None \<Rightarrow> Some (length (filter (matches fs) (rows_of b t))),
      sent (Count t fs) b)"

text \<open>
  \<^verbatim>\<open>from(t).insert(payload)\<close>. \<open>gen\<close> holds the columns the backend fills in by itself
  for the new row (its id, its creation time); the payload's columns are written over
  them. The result is the error's message, if any.
\<close>

definition insert_row :: "backend \<Rightarrow> string \<Rightarrow> row \<Rightarrow> row \<Rightarrow> string option \<times> backend" where
  "insert_row b t payload gen =
     (case map_of (failing b) t of
        Some e \<Rightarrow> (Some e, sent (Insert t payload) b)
      | None \<Rightarrow>
          (None, sent (Insert t payload)
             (b\<lparr>tables := AList.update t (rows_of b t @ [assign payload gen]) (tables b)\<rparr>)))"

text \<open>\<^verbatim>\<open>from(t).update(changes).eq(...)\<close>: every row that passes the filters is changed.\<close>

definition update_rows :: "backend \<Rightarrow> string \<Rightarrow> row \<Rightarrow> filters \<Rightarrow> string option \<times> backend" where
  "update_rows b t changes fs =
     (case map_of (failing b) t of
        Some e \<Rightarrow> (Some e, sent (Update t changes fs) b)
      | None \<Rightarrow>
          (None, sent (Update t changes fs)
             (b\<lparr>tables := AList.update t
                   (map (\<lambda>r. if matches fs r then assign changes r else r) (rows_of b t))
                   (tables b)\<rparr>)))"

text \<open>
  \<^verbatim>\<open>storage.from(bucket).upload(path, file, { upsert: false })\<close>. A path that is
  already taken is refused.
\<close>

definition objects_of :: "backend \<Rightarrow> string \<Rightarrow> (string \<times> File) list" where
  "objects_of b bucket = (case map_of (storage b) bucket of None \<Rightarrow> [] | Some os \<Rightarrow> os)"

definition storage_upload :: "backend \<Rightarrow> string \<Rightarrow> string \<Rightarrow> File \<Rightarrow> string option \<times> backend" where
  "storage_upload b bucket path file =
     (case map_of (failing b) bucket of
        Some e \<Rightarrow> (Some e, sent (StorageUpload bucket path) b)
      | None \<Rightarrow>
          (if map_of (objects_of b bucket) path \<noteq> None
           then (Some ''The resource already exists'', sent (StorageUpload bucket path) b)
           else (None, sent (StorageUpload bucket path)
                   (b\<lparr>storage := AList.update bucket (objects_of b bucket @ [(path, file)])
                         (storage b)\<rparr>))))"

section \<open>The volunteer page\<close>

text \<open>
  The state of \<^verbatim>\<open>VolunteerPage\<close> that the handlers below read or write. The signed-in
  user is the object the authentication service gave; \<^verbatim>\<open>null\<close> is \<open>None\<close>.
\<close>

record User =
  user_id :: string
  user_email :: string

record EventWithMeta =
  event :: row
  organizer_email :: string
  participant_count :: nat
  user_participation :: "row option"

datatype EventModalMode = create | edit

record EventFormState =
  title :: string
  description :: string
  location :: string
  event_date :: string

definition EMPTY_FORM :: EventFormState where
  "EMPTY_FORM = \<lparr>title = '''', description = '''', location = '''', event_date = ''''\<rparr>"

record page_state =
  currentUser :: "User option"
  events :: "EventWithMeta list"
  eventsLoading :: bool
  selectedEvent :: "EventWithMeta option"
  eventParticipants :: "row list"
  eventUploads :: "row list"
  detailLoading :: bool
  eventModalMode :: "EventModalMode option"
  editingEvent :: "row option"
  eventForm :: EventFormState
  formLoading :: bool
  formError :: string
  uploadLoading :: bool
  uploadError :: string

text \<open>
  A handler is a function from the page state and the backend to the state and the
  backend it leaves when it has run to its end, every \<^verbatim>\<open>await\<close> answered. Requests
  that \<^verbatim>\<open>Promise.all\<close> sends together are taken one row after the other.
\<close>

subsection \<open>\<^verbatim>\<open>fetchEvents\<close>\<close>

text \<open>\<^verbatim>\<open>org?.email ?? 'Unknown'\<close>.\<close>

definition email_or_unknown :: "row option \<Rightarrow> string" where
  "email_or_unknown r =
     (case r of None \<Rightarrow> ''Unknown''
      | Some x \<Rightarrow> (case col x ''email'' of None \<Rightarrow> ''Unknown'' | Some e \<Rightarrow> e))"

definition enrich_event :: "User option \<Rightarrow> backend \<Rightarrow> row \<Rightarrow> EventWithMeta \<times> backend" where
  "enrich_event user b ev =
     (let (org, b1) = select_rows b ''profiles'' [(''id'', col ev ''organizer_id'')];
          (count, b2) = count_rows b1 ''participants'' [(''event_id'', col ev ''id'')];
          (userPart, b3) =
            (case user of
               None \<Rightarrow> (None, b2)
             | Some u \<Rightarrow>
                 (let (p, b') = select_rows b2 ''participants''
                        [(''event_id'', col ev ''id''), (''volunteer_id'', Some (user_id u))]
                  in (single p, b')))
      in (\<lparr>event = ev,
           organizer_email = email_or_unknown (single org),
           participant_count = (case count of None \<Rightarrow> 0 | Some n \<Rightarrow> n),
           user_participation = userPart\<rparr>, b3))"

fun enrich_events :: "User option \<Rightarrow> backend \<Rightarrow> row list \<Rightarrow> EventWithMeta list \<times> backend" where
  "enrich_events user b [] = ([], b)"
| "enrich_events user b (ev # evs) =
     (let (e, b1) = enrich_event user b ev;
          (es, b2) = enrich_events user b1 evs
      in (e # es, b2))"

definition fetchEvents :: "page_state \<Rightarrow> backend \<Rightarrow> page_state \<times> backend" where
  "fetchEvents st b =
     (let st1 = st\<lparr>eventsLoading := True\<rparr>;
          (eventsData, b1) = select_rows b ''events'' []
      in case eventsData of
           Inl error \<Rightarrow> (st1\<lparr>eventsLoading := False\<rparr>, b1)
         | Inr rows \<Rightarrow>
             (let (enriched, b2) =
                    enrich_events (currentUser st) b1 (order_by ''event_date'' True rows)
              in (st1\<lparr>events := enriched, eventsLoading := False\<rparr>, b2)))"

subsection \<open>\<^verbatim>\<open>fetchEventDetail\<close>\<close>

text \<open>The rows of a list, each with the email of the profile that column \<open>c\<close> names.\<close>

fun enrich_emails :: "backend \<Rightarrow> string \<Rightarrow> row list \<Rightarrow> row list \<times> backend" where
  "enrich_emails b c [] = ([], b)"
| "enrich_emails b c (r # rs) =
     (let (prof, b1) = select_rows b ''profiles'' [(''id'', col r c)];
          (rs', b2) = enrich_emails b1 c rs
      in (assign [(''email'', email_or_unknown (single prof))] r # rs', b2))"

definition data_or_empty :: "(string + row list) \<Rightarrow> row list" where
  "data_or_empty res = (case res of Inl e \<Rightarrow> [] | Inr rs \<Rightarrow> rs)"

definition fetchEventDetail :: "page_state \<Rightarrow> backend \<Rightarrow> EventWithMeta \<Rightarrow> page_state \<times> backend" where
  "fetchEventDetail st b ev =
     (let st1 = st\<lparr>detailLoading := True, selectedEvent := Some ev\<rparr>;
          (parts, b1) = select_rows b ''participants'' [(''event_id'', col (event ev) ''id'')];
          (enrichedParts, b2) = enrich_emails b1 ''volunteer_id'' (data_or_empty parts);
          st2 = st1\<lparr>eventParticipants := enrichedParts\<rparr>;
          (ups, b3) = select_rows b2 ''uploads'' [(''event_id'', col (event ev) ''id'')];
          (enrichedUps, b4) =
            enrich_emails b3 ''user_id'' (order_by ''created_at'' False (data_or_empty ups))
      in (st2\<lparr>eventUploads := enrichedUps, detailLoading := False\<rparr>, b4))"

subsection \<open>Participation\<close>

text \<open>
  \<^verbatim>\<open>handleJoinEvent\<close>. \<open>gen\<close> holds the columns the backend fills in for the new row.
\<close>

definition join_payload :: "string \<Rightarrow> User \<Rightarrow> row" where
  "join_payload eventId u =
     [(''event_id'', eventId), (''volunteer_id'', user_id u), (''status'', ''accepted'')]"

definition handleJoinEvent :: "page_state \<Rightarrow> backend \<Rightarrow> row \<Rightarrow> string \<Rightarrow> page_state \<times> backend" where
  "handleJoinEvent st b gen eventId =
     (case currentUser st of
        None \<Rightarrow> (st, b)
      | Some u \<Rightarrow>
          (let (error, b1) = insert_row b ''participants'' (join_payload eventId u) gen
           in if error = None then fetchEvents st b1 else (st, b1)))"

text \<open>
  \<^verbatim>\<open>handleUpdateParticipantStatus\<close>: its second parameter has the type
  \<^verbatim>\<open>'accepted' | 'declined'\<close>.
\<close>

datatype decision = accepted | declined

fun decision_text :: "decision \<Rightarrow> string" where
  "decision_text accepted = ''accepted''"
| "decision_text declined = ''declined''"

definition handleUpdateParticipantStatus ::
  "page_state \<Rightarrow> backend \<Rightarrow> string \<Rightarrow> decision \<Rightarrow> page_state \<times> backend" where
  "handleUpdateParticipantStatus st b participantId status =
     (let (error, b1) = update_rows b ''participants'' [(''status'', decision_text status)]
                          [(''id'', Some participantId)]
      in case selectedEvent st of
           None \<Rightarrow> (st, b1)
         | Some ev \<Rightarrow> fetchEventDetail st b1 ev)"

subsection \<open>\<^verbatim>\<open>handleEventFormSubmit\<close>\<close>

definition required_fields_message :: string where
  "required_fields_message = ''Title, location, and date are required.''"

text \<open>
  \<open>toISOString s\<close> stands for \<^verbatim>\<open>new Date(s).toISOString()\<close>, which depends on the
  browser's time zone and throws a \<^verbatim>\<open>RangeError\<close> on a text that is no date (\<open>None\<close>);
  the exception ends the handler where it stands.
\<close>

definition event_fields :: "EventFormState \<Rightarrow> string \<Rightarrow> row" where
  "event_fields form isoDate =
     [(''title'', title form), (''description'', description form),
      (''location'', location form), (''event_date'', isoDate)]"

definition handleEventFormSubmit ::
  "page_state \<Rightarrow> backend \<Rightarrow> (string \<Rightarrow> string option) \<Rightarrow> row \<Rightarrow> page_state \<times> backend" where
  "handleEventFormSubmit st b toISOString gen =
     (case currentUser st of
        None \<Rightarrow> (st, b)
      | Some u \<Rightarrow>
          (let st1 = st\<lparr>formLoading := True, formError := ''''\<rparr>;
               form = eventForm st;
               finish = (\<lambda>b'. fetchEvents (st1\<lparr>eventModalMode := None, formLoading := False\<rparr>) b')
           in if title form = [] \<or> location form = [] \<or> event_date form = []
              then (st1\<lparr>formError := required_fields_message, formLoading := False\<rparr>, b)
              else if eventModalMode st = Some create
              then (case toISOString (event_date form) of
                      None \<Rightarrow> (st1, b)
                    | Some isoDate \<Rightarrow>
                        (case insert_row b ''events''
                                ((''organizer_id'', user_id u) # event_fields form isoDate) gen of
                           (Some e, b1) \<Rightarrow> (st1\<lparr>formError := e, formLoading := False\<rparr>, b1)
                         | (None, b1) \<Rightarrow> finish b1))
              else (case (eventModalMode st, editingEvent st) of
                      (Some edit, Some editing) \<Rightarrow>
                        (case toISOString (event_date form) of
                           None \<Rightarrow> (st1, b)
                         | Some isoDate \<Rightarrow>
                             (case update_rows b ''events'' (event_fields form isoDate)
                                     [(''id'', col editing ''id'')] of
                                (Some e, b1) \<Rightarrow> (st1\<lparr>formError := e, formLoading := False\<rparr>, b1)
                              | (None, b1) \<Rightarrow> finish b1))
                    | _ \<Rightarrow> finish b)))"

subsection \<open>\<^verbatim>\<open>handleImageUpload\<close>\<close>

text \<open>A value inside a template literal: \<^verbatim>\<open>undefined\<close> prints as that word.\<close>

definition template_text :: "string option \<Rightarrow> string" where
  "template_text v = (case v of None \<Rightarrow> ''undefined'' | Some x \<Rightarrow> x)"

definition upload_payload :: "User \<Rightarrow> string \<Rightarrow> EventWithMeta \<Rightarrow> row" where
  "upload_payload u publicUrl ev =
     object [(''user_id'', Some (user_id u)), (''image_url'', Some publicUrl),
             (''category'', Some ''event''), (''event_id'', col (event ev) ''id'')]"

text \<open>
  \<open>now\<close> is the text of \<^verbatim>\<open>Date.now()\<close>. \<open>getPublicUrl bucket path\<close> stands for
  the library's \<^verbatim>\<open>storage.from(bucket).getPublicUrl(path).data.publicUrl\<close>, which
  builds the address from the project's endpoint and encodes the path; it sends no
  request and is a parameter of the model.
\<close>

definition handleImageUpload ::
  "page_state \<Rightarrow> backend \<Rightarrow> (string \<Rightarrow> string \<Rightarrow> string) \<Rightarrow> row \<Rightarrow> string \<Rightarrow> File \<Rightarrow>
     page_state \<times> backend" where
  "handleImageUpload st b getPublicUrl gen now file =
     (case (currentUser st, selectedEvent st) of
        (Some u, Some ev) \<Rightarrow>
          (let st1 = st\<lparr>uploadLoading := True, uploadError := ''''\<rparr>;
               filePath = template_text (col (event ev) ''id'') @ ''/'' @ user_id u @ ''/'' @
                          now @ ''_'' @ file_name file
           in case storage_upload b ''event-images'' filePath file of
                (Some storageError, b1) \<Rightarrow>
                  (st1\<lparr>uploadError := storageError, uploadLoading := False\<rparr>, b1)
              | (None, b1) \<Rightarrow>
                  (let publicUrl = getPublicUrl ''event-images'' filePath
                   in case insert_row b1 ''uploads'' (upload_payload u publicUrl ev) gen of
                        (Some dbError, b2) \<Rightarrow>
                          (st1\<lparr>uploadError := dbError, uploadLoading := False\<rparr>, b2)
                      | (None, b2) \<Rightarrow> fetchEventDetail (st1\<lparr>uploadLoading := False\<rparr>) b2 ev))
      | _ \<Rightarrow> (st, b))"

section \<open>Reads and writes\<close>

text \<open>
  \<open>reads_only b b'\<close>: the backend \<open>b'\<close> is \<open>b\<close> after some more requests that changed
  nothing but the log.
\<close>

definition reads_only :: "backend \<Rightarrow> backend \<Rightarrow> bool" where
  "reads_only b b' \<longleftrightarrow> (\<exists>rs. b' = b\<lparr>requests := requests b @ rs\<rparr>)"

section \<open>Sample inputs\<close>

definition sample_file :: File where
  "sample_file = \<lparr>file_name = ''can.jpg'', file_type = ''image/jpeg''\<rparr>"

definition sample_classifier :: classifier_state where
  "sample_classifier =
     \<lparr>selectedFile = Some sample_file, previewUrl = Some ''blob:1'', isLoading = False,
      result = None, isDragging = False\<rparr>"

text \<open>
  Two events of organizer \<open>a\<close>; the first has three participation rows, one of each
  status, the second has one.
\<close>

definition sample_backend :: backend where
  "sample_backend =
     \<lparr>tables =
        [(''profiles'',
            [[(''id'', ''a''), (''email'', ''a@x.ph''), (''role'', ''organizer'')],
             [(''id'', ''b''), (''email'', ''b@x.ph''), (''role'', ''volunteer'')]]),
         (''events'',
            [[(''id'', ''e2''), (''organizer_id'', ''a''), (''title'', ''River''),
              (''event_date'', ''2024-07-01T08:00:00+00:00'')],
             [(''id'', ''e1''), (''organizer_id'', ''a''), (''title'', ''Beach''),
              (''event_date'', ''2024-06-01T08:00:00+00:00'')]]),
         (''participants'',
            [[(''id'', ''p1''), (''event_id'', ''e1''), (''volunteer_id'', ''b''),
              (''status'', ''accepted'')],
             [(''id'', ''p2''), (''event_id'', ''e1''), (''volunteer_id'', ''c''),
              (''status'', ''declined'')],
             [(''id'', ''p3''), (''event_id'', ''e1''), (''volunteer_id'', ''d''),
              (''status'', ''pending'')],
             [(''id'', ''p4''), (''event_id'', ''e2''), (''volunteer_id'', ''b''),
              (''status'', ''declined'')]])],
      storage = [], failing = [], requests = []\<rparr>"

definition sample_user :: User where
  "sample_user = \<lparr>user_id = ''b'', user_email = ''b@x.ph''\<rparr>"

definition sample_page :: page_state where
  "sample_page =
     \<lparr>currentUser = Some sample_user, events = [], eventsLoading = True,
      selectedEvent = None, eventParticipants = [], eventUploads = [],
      detailLoading = False, eventModalMode = None, editingEvent = None,
      eventForm = EMPTY_FORM, formLoading = False, formError = '''', uploadLoading = False,
      uploadError = ''''\<rparr>"

text \<open>The page with the detail view of the first event open, and a photo to upload.\<close>

definition sample_event :: EventWithMeta where
  "sample_event =
     \<lparr>event = [(''id'', ''e1''), (''organizer_id'', ''a''), (''title'', ''Beach''),
               (''event_date'', ''2024-06-01T08:00:00+00:00'')],
      organizer_email = ''a@x.ph'', participant_count = 3, user_participation = None\<rparr>"

definition detail_page :: page_state where
  "detail_page = sample_page\<lparr>selectedEvent := Some sample_event\<rparr>"

definition sample_photo :: File where
  "sample_photo = \<lparr>file_name = ''beach.jpg'', file_type = ''image/jpeg''\<rparr>"

text \<open>
  The page with the creation form open: once with the location left empty, once with
  nobody signed in as well, once with every required field filled.
\<close>

definition form_page :: page_state where
  "form_page =
     sample_page\<lparr>eventModalMode := Some create,
       eventForm := \<lparr>title = ''Bucana Beach Clean-up'', description = ''Bring gloves'',
                     location = '''', event_date = ''2024-06-01T08:00''\<rparr>\<rparr>"

definition signed_out_page :: page_state where
  "signed_out_page = form_page\<lparr>currentUser := None\<rparr>"

definition filled_page :: page_state where
  "filled_page = form_page\<lparr>eventForm := (eventForm form_page)\<lparr>location := ''Bucana Beach''\<rparr>\<rparr>"

text \<open>
  A stand-in for the library's \<^verbatim>\<open>createClient\<close> in the examples: it refuses a URL that
  does not start as an http(s) URL does, and otherwise returns a client that remembers
  the two texts.
\<close>

record SupabaseClient =
  client_url :: string
  client_key :: string

definition sample_createClient :: "string \<Rightarrow> string \<Rightarrow> error + SupabaseClient" where
  "sample_createClient url key =
     (if take 7 url = ''http://'' \<or> take 8 url = ''https://''
      then Inr \<lparr>client_url = url, client_key = key\<rparr>
      else Inl (Error ''Invalid supabaseUrl: Must be a valid HTTP or HTTPS URL.''))"

text \<open>
  A stand-in for the library's \<^verbatim>\<open>getPublicUrl\<close> in the examples, right for paths that
  need no encoding.
\<close>

definition sample_getPublicUrl :: "string \<Rightarrow> string \<Rightarrow> string" where
  "sample_getPublicUrl bucket path = ''https://cdn/'' @ bucket @ ''/'' @ path"

text \<open>The sample backend with one photo of the second event already recorded.\<close>

definition photo_backend :: backend where
  "photo_backend =
     sample_backend\<lparr>tables := tables sample_backend @
       [(''uploads'',
           [[(''id'', ''u0''), (''created_at'', ''2024-07-01T09:00:00+00:00''),
             (''user_id'', ''b''), (''image_url'', ''https://cdn/event-images/e2/b/1_river.jpg''),
             (''category'', ''event''), (''event_id'', ''e2'')]])]\<rparr>"

section \<open>Properties of the module initialisation\<close>

lemma supabase_throws_missing:
  assumes "falsy (map_of env NEXT_PUBLIC_SUPABASE_URL) \<or>
           falsy (map_of env NEXT_PUBLIC_SUPABASE_ANON_KEY)"
  shows "supabase createClient env = Inl (Error missing_env_message)"
  using assms by (simp add: supabase_def)

lemma supabase_calls_library:
  assumes "map_of env NEXT_PUBLIC_SUPABASE_URL = Some url" and "url \<noteq> []"
    and "map_of env NEXT_PUBLIC_SUPABASE_ANON_KEY = Some key" and "key \<noteq> []"
  shows "supabase createClient env = createClient url key"
  using assms by (simp add: supabase_def)

text \<open>
  Claim C1, as amended. When one of the two variables is not set, the module throws its
  own error, whatever the library would do: no client is made. When both are set to
  non-empty texts, the module calls \<^verbatim>\<open>createClient\<close> with exactly these two texts, and
  the outcome of the module is the outcome of that call: the client the library returns,
  or the error the library throws. (Set to the empty text, a variable makes the module
  throw, as the next theorem but one shows.)
\<close>

theorem supabase_absent_or_present:
  "(map_of env NEXT_PUBLIC_SUPABASE_URL = None \<or> map_of env NEXT_PUBLIC_SUPABASE_ANON_KEY = None
      \<longrightarrow> supabase createClient env = Inl (Error missing_env_message)) \<and>
   (map_of env NEXT_PUBLIC_SUPABASE_URL = Some url \<and> url \<noteq> [] \<and>
    map_of env NEXT_PUBLIC_SUPABASE_ANON_KEY = Some key \<and> key \<noteq> []
      \<longrightarrow> supabase createClient env = createClient url key)"
proof (intro conjI impI)
  assume "map_of env NEXT_PUBLIC_SUPABASE_URL = None \<or>
          map_of env NEXT_PUBLIC_SUPABASE_ANON_KEY = None"
  then have "falsy (map_of env NEXT_PUBLIC_SUPABASE_URL) \<or>
             falsy (map_of env NEXT_PUBLIC_SUPABASE_ANON_KEY)"
    by auto
  then show "supabase createClient env = Inl (Error missing_env_message)"
    by (rule supabase_throws_missing)
next
  assume "map_of env NEXT_PUBLIC_SUPABASE_URL = Some url \<and> url \<noteq> [] \<and>
    map_of env NEXT_PUBLIC_SUPABASE_ANON_KEY = Some key \<and> key \<noteq> []"
  then show "supabase createClient env = createClient url key"
    by (simp add: supabase_calls_library)
qed

theorem supabase_absent_or_present_witness:
  "supabase sample_createClient [(''NEXT_PUBLIC_SUPABASE_ANON_KEY'', ''anon'')]
     = Inl (Error missing_env_message) \<and>
   supabase sample_createClient [(''NEXT_PUBLIC_SUPABASE_URL'', ''https://x.supabase.co'')]
     = Inl (Error missing_env_message) \<and>
   supabase sample_createClient
       [(''NEXT_PUBLIC_SUPABASE_URL'', ''https://x.supabase.co''),
        (''NEXT_PUBLIC_SUPABASE_ANON_KEY'', ''anon'')]
     = Inr \<lparr>client_url = ''https://x.supabase.co'', client_key = ''anon''\<rparr> \<and>
   supabase sample_createClient
       [(''NEXT_PUBLIC_SUPABASE_URL'', ''not-a-url''),
        (''NEXT_PUBLIC_SUPABASE_ANON_KEY'', ''anon'')]
     = Inl (Error ''Invalid supabaseUrl: Must be a valid HTTP or HTTPS URL.'')"
  using supabase_absent_or_present
      [of "[(''NEXT_PUBLIC_SUPABASE_ANON_KEY'', ''anon'')]" sample_createClient]
    supabase_absent_or_present
      [of "[(''NEXT_PUBLIC_SUPABASE_URL'', ''https://x.supabase.co'')]" sample_createClient]
    supabase_absent_or_present
      [of "[(''NEXT_PUBLIC_SUPABASE_URL'', ''https://x.supabase.co''),
            (''NEXT_PUBLIC_SUPABASE_ANON_KEY'', ''anon'')]"
          sample_createClient "''https://x.supabase.co''" "''anon''"]
    supabase_absent_or_present
      [of "[(''NEXT_PUBLIC_SUPABASE_URL'', ''not-a-url''),
            (''NEXT_PUBLIC_SUPABASE_ANON_KEY'', ''anon'')]"
          sample_createClient "''not-a-url''" "''anon''"]
  by (simp add: NEXT_PUBLIC_SUPABASE_URL_def NEXT_PUBLIC_SUPABASE_ANON_KEY_def
        sample_createClient_def)

text \<open>
  Claim C1 as stated fails: with both variables present, the endpoint being the empty
  text, the module throws its own error and exports no client.
\<close>

theorem supabase_present_but_empty:
  "map_of [(''NEXT_PUBLIC_SUPABASE_URL'', ''''), (''NEXT_PUBLIC_SUPABASE_ANON_KEY'', ''anon'')]
      NEXT_PUBLIC_SUPABASE_URL = Some '''' \<and>
   map_of [(''NEXT_PUBLIC_SUPABASE_URL'', ''''), (''NEXT_PUBLIC_SUPABASE_ANON_KEY'', ''anon'')]
      NEXT_PUBLIC_SUPABASE_ANON_KEY = Some ''anon'' \<and>
   supabase sample_createClient
       [(''NEXT_PUBLIC_SUPABASE_URL'', ''''), (''NEXT_PUBLIC_SUPABASE_ANON_KEY'', ''anon'')]
     = Inl (Error missing_env_message)"
  by (simp add: supabase_def NEXT_PUBLIC_SUPABASE_URL_def NEXT_PUBLIC_SUPABASE_ANON_KEY_def)

text \<open>
  Claim C8. A variable that is set to the empty text is treated as one that is not set:
  the module throws the error it throws for an empty environment, and the library is not
  called, so no client is made.
\<close>

theorem supabase_empty_string:
  assumes "map_of env NEXT_PUBLIC_SUPABASE_URL = Some [] \<or>
           map_of env NEXT_PUBLIC_SUPABASE_ANON_KEY = Some []"
  shows "supabase createClient env = Inl (Error missing_env_message) \<and>
         supabase createClient env = supabase createClient []"
proof -
  from assms
  have "falsy (map_of env NEXT_PUBLIC_SUPABASE_URL) \<or>
        falsy (map_of env NEXT_PUBLIC_SUPABASE_ANON_KEY)"
    by auto
  then have "supabase createClient env = Inl (Error missing_env_message)"
    by (rule supabase_throws_missing)
  moreover have "supabase createClient [] = Inl (Error missing_env_message)"
    by (simp add: supabase_def)
  ultimately show ?thesis by simp
qed

theorem supabase_empty_string_witness:
  "supabase sample_createClient
       [(''NEXT_PUBLIC_SUPABASE_URL'', ''https://x.supabase.co''),
        (''NEXT_PUBLIC_SUPABASE_ANON_KEY'', '''')] = Inl (Error missing_env_message) \<and>
   supabase sample_createClient
       [(''NEXT_PUBLIC_SUPABASE_URL'', ''''), (''NEXT_PUBLIC_SUPABASE_ANON_KEY'', ''anon'')]
     = Inl (Error missing_env_message)"
  using supabase_empty_string
      [of "[(''NEXT_PUBLIC_SUPABASE_URL'', ''https://x.supabase.co''),
            (''NEXT_PUBLIC_SUPABASE_ANON_KEY'', '''')]" sample_createClient]
    supabase_empty_string
      [of "[(''NEXT_PUBLIC_SUPABASE_URL'', ''''), (''NEXT_PUBLIC_SUPABASE_ANON_KEY'', ''anon'')]"
          sample_createClient]
  by (simp add: NEXT_PUBLIC_SUPABASE_URL_def NEXT_PUBLIC_SUPABASE_ANON_KEY_def)

section \<open>Properties of the classifier\<close>

lemma floor_quarter:
  fixes r :: real
  assumes "0 \<le> r" and "r < 1"
  shows "\<lfloor>r * 4\<rfloor> = 0 \<or> \<lfloor>r * 4\<rfloor> = 1 \<or>
         \<lfloor>r * 4\<rfloor> = 2 \<or> \<lfloor>r * 4\<rfloor> = 3"
proof -
  define n where "n = \<lfloor>r * 4\<rfloor>"
  have "0 \<le> n" using assms by (simp add: n_def)
  moreover have "n < 4" using assms by (simp add: n_def floor_less_iff)
  ultimately have "n = 0 \<or> n = 1 \<or> n = 2 \<or> n = 3" by arith
  then show ?thesis by (simp only: n_def)
qed

lemma handleClassify_at:
  assumes "selectedFile st = Some file"
  shows "handleClassify st rnd =
           (st\<lparr>isLoading := False, result := js_index mockCategories \<lfloor>rnd * 4\<rfloor>\<rparr>, 2000)"
  using assms by (simp add: handleClassify_def mockCategories_def mock_delay_ms_def)

lemma js_index_mockCategories:
  "js_index mockCategories 0 = Some ''Biodegradable''"
  "js_index mockCategories 1 = Some ''Recyclable''"
  "js_index mockCategories 2 = Some ''Residual''"
  "js_index mockCategories 3 = Some ''Special Waste''"
  by (simp_all add: js_index_def mockCategories_def)

text \<open>
  Claim C3. With an image selected and \<^verbatim>\<open>Math.random()\<close> in \<open>[0, 1)\<close>, the handler
  ends, after waiting 2000 ms, with a result that is one of the four labels: not null
  and no fifth value. The mock has no failing path, so the claim's other outcome, an
  error, never occurs.
\<close>

theorem handleClassify_label:
  assumes "selectedFile st = Some file" and "0 \<le> rnd" and "rnd < 1"
  shows "\<exists>c. result (fst (handleClassify st rnd)) = Some c \<and>
             c \<in> {''Biodegradable'', ''Recyclable'', ''Residual'', ''Special Waste''} \<and>
             snd (handleClassify st rnd) = 2000 \<and>
             \<not> isLoading (fst (handleClassify st rnd))"
proof -
  have "\<lfloor>rnd * 4\<rfloor> = 0 \<or> \<lfloor>rnd * 4\<rfloor> = 1 \<or>
        \<lfloor>rnd * 4\<rfloor> = 2 \<or> \<lfloor>rnd * 4\<rfloor> = 3"
    using assms(2,3) by (rule floor_quarter)
  then consider "\<lfloor>rnd * 4\<rfloor> = 0" | "\<lfloor>rnd * 4\<rfloor> = 1"
    | "\<lfloor>rnd * 4\<rfloor> = 2" | "\<lfloor>rnd * 4\<rfloor> = 3"
    by blast
  then show ?thesis
    by cases (simp_all only: handleClassify_at [OF assms(1)] js_index_mockCategories, simp_all)
qed

theorem handleClassify_label_witness:
  "selectedFile sample_classifier = Some sample_file \<and>
   result (fst (handleClassify sample_classifier 0.6)) = Some ''Residual'' \<and>
   snd (handleClassify sample_classifier 0.6) = 2000 \<and>
   \<not> isLoading (fst (handleClassify sample_classifier 0.6))"
  using handleClassify_label [of sample_classifier sample_file "0.6"]
  by (simp add: sample_classifier_def handleClassify_def mockCategories_def js_index_def
        mock_delay_ms_def)

section \<open>Properties of the navigation bar\<close>

lemma desktop_styled_active_iff:
  "desktop_styled_active (desktop_link pathname link) \<longleftrightarrow> pathname = href link"
  by (simp add: desktop_styled_active_def desktop_link_def desktop_active_def desktop_inactive_def)

lemma mobile_styled_active_iff:
  "mobile_styled_active (mobile_link pathname link) \<longleftrightarrow> pathname = href link"
  by (simp add: mobile_styled_active_def mobile_link_def mobile_active_def mobile_inactive_def)

lemma filter_styled_desktop:
  "filter desktop_styled_active (map (desktop_link pathname) ls) =
     map (desktop_link pathname) (filter (\<lambda>l. pathname = href l) ls)"
  by (simp add: filter_map o_def desktop_styled_active_iff)

lemma filter_styled_mobile:
  "filter mobile_styled_active (map (mobile_link pathname) ls) =
     map (mobile_link pathname) (filter (\<lambda>l. pathname = href l) ls)"
  by (simp add: filter_map o_def mobile_styled_active_iff)

lemma navLinks_match: "length (filter (\<lambda>l. pathname = href l) navLinks) \<le> 1"
  by (auto simp: navLinks_def)

text \<open>
  Claim C9. Whatever the pathname and the menu state, at most one of the four links of
  the desktop row carries the active styling, and at most one of the four links of the
  mobile dropdown (rendered while the menu is open) does.
\<close>

theorem Navbar_at_most_one_active:
  "length (filter desktop_styled_active (desktop_links (Navbar pathname menuOpen))) \<le> 1 \<and>
   length (filter mobile_styled_active
     (case mobile_links (Navbar pathname menuOpen) of None \<Rightarrow> [] | Some ls \<Rightarrow> ls)) \<le> 1"
  using navLinks_match [of pathname]
  by (simp add: Navbar_def filter_styled_desktop filter_styled_mobile)

text \<open>
  Claim C10. Two clicks on the hamburger button give back the menu state they started
  from; a click on a link of the dropdown leaves the menu closed whatever it was, so
  that the dropdown is no longer rendered, and a second such click changes nothing.
\<close>

theorem menu_toggle_involution:
  "hamburger_onClick (hamburger_onClick menuOpen) = menuOpen \<and>
   mobile_link_onClick menuOpen = False \<and>
   mobile_link_onClick (mobile_link_onClick menuOpen) = mobile_link_onClick menuOpen \<and>
   mobile_links (Navbar pathname (mobile_link_onClick menuOpen)) = None"
  by (simp add: hamburger_onClick_def mobile_link_onClick_def Navbar_def)

section \<open>Requests that only read\<close>

lemma reads_only_refl: "reads_only b b"
  unfolding reads_only_def by (rule exI [of _ "[]"]) simp

lemma reads_only_trans: "reads_only b b1 \<Longrightarrow> reads_only b1 b2 \<Longrightarrow> reads_only b b2"
  unfolding reads_only_def by auto

lemma reads_only_sent: "reads_only b (sent rq b)"
  unfolding reads_only_def sent_def by (rule exI [of _ "[rq]"]) simp

lemma reads_only_fields:
  assumes "reads_only b b'"
  shows "tables b' = tables b" "failing b' = failing b" "storage b' = storage b"
    "rows_of b' t = rows_of b t" "\<exists>rs. requests b' = requests b @ rs"
  using assms unfolding reads_only_def rows_of_def by auto

lemma select_rows_snd: "snd (select_rows b t fs) = sent (Select t fs) b"
  by (simp add: select_rows_def)

lemma count_rows_snd: "snd (count_rows b t fs) = sent (Count t fs) b"
  by (simp add: count_rows_def)

lemma reads_only_select: "reads_only b (snd (select_rows b t fs))"
  by (simp add: select_rows_snd reads_only_sent)

lemma reads_only_count: "reads_only b (snd (count_rows b t fs))"
  by (simp add: count_rows_snd reads_only_sent)

lemma reads_only_enrich_event: "reads_only b (snd (enrich_event user b ev))"
proof -
  obtain org b1 where 1: "select_rows b ''profiles'' [(''id'', col ev ''organizer_id'')] = (org, b1)"
    by (cases "select_rows b ''profiles'' [(''id'', col ev ''organizer_id'')]")
  obtain n b2 where 2: "count_rows b1 ''participants'' [(''event_id'', col ev ''id'')] = (n, b2)"
    by (cases "count_rows b1 ''participants'' [(''event_id'', col ev ''id'')]")
  have r1: "reads_only b b1"
    using reads_only_select [of b "''profiles''" "[(''id'', col ev ''organizer_id'')]"] 1
    by simp
  have r2: "reads_only b1 b2"
    using reads_only_count [of b1 "''participants''" "[(''event_id'', col ev ''id'')]"] 2
    by simp
  have r12: "reads_only b b2" using r1 r2 by (rule reads_only_trans)
  show ?thesis
  proof (cases user)
    case None
    then show ?thesis using 1 2 r12 by (simp add: enrich_event_def)
  next
    case (Some u)
    let ?q = "select_rows b2 ''participants''
                [(''event_id'', col ev ''id''), (''volunteer_id'', Some (user_id u))]"
    have "reads_only b2 (snd ?q)" by (rule reads_only_select)
    then have "reads_only b (snd ?q)" using r12 reads_only_trans by blast
    then show ?thesis using 1 2 Some by (simp add: enrich_event_def split_beta)
  qed
qed

lemma reads_only_enrich_events: "reads_only b (snd (enrich_events user b evs))"
proof (induction evs arbitrary: b)
  case Nil
  show ?case by (simp add: reads_only_refl)
next
  case (Cons ev evs)
  let ?b1 = "snd (enrich_event user b ev)"
  have "reads_only b ?b1" by (rule reads_only_enrich_event)
  moreover have "reads_only ?b1 (snd (enrich_events user ?b1 evs))"
    by (rule Cons.IH)
  ultimately show ?case by (simp add: split_beta) (rule reads_only_trans)
qed

lemma reads_only_fetchEvents: "reads_only b (snd (fetchEvents st b))"
proof -
  let ?q = "select_rows b ''events'' []"
  have r1: "reads_only b (snd ?q)" by (rule reads_only_select)
  show ?thesis
  proof (cases "fst ?q")
    case (Inl e)
    then show ?thesis using r1 by (simp add: fetchEvents_def split_beta)
  next
    case (Inr rows)
    let ?e = "enrich_events (currentUser st) (snd ?q) (order_by ''event_date'' True rows)"
    have "reads_only (snd ?q) (snd ?e)"
      by (rule reads_only_enrich_events)
    with r1 have "reads_only b (snd ?e)"
      by (rule reads_only_trans)
    then show ?thesis using Inr by (simp add: fetchEvents_def split_beta)
  qed
qed

lemma reads_only_enrich_emails: "reads_only b (snd (enrich_emails b c rs))"
proof (induction rs arbitrary: b)
  case Nil
  show ?case by (simp add: reads_only_refl)
next
  case (Cons r rs)
  let ?b1 = "snd (select_rows b ''profiles'' [(''id'', col r c)])"
  have "reads_only b ?b1" by (rule reads_only_select)
  moreover have "reads_only ?b1 (snd (enrich_emails ?b1 c rs))" by (rule Cons.IH)
  ultimately show ?case by (simp add: split_beta) (rule reads_only_trans)
qed

lemma reads_only_fetchEventDetail: "reads_only b (snd (fetchEventDetail st b ev))"
proof -
  let ?q1 = "select_rows b ''participants'' [(''event_id'', col (event ev) ''id'')]"
  let ?e1 = "enrich_emails (snd ?q1) ''volunteer_id'' (data_or_empty (fst ?q1))"
  let ?q2 = "select_rows (snd ?e1) ''uploads'' [(''event_id'', col (event ev) ''id'')]"
  let ?e2 = "enrich_emails (snd ?q2) ''user_id''
               (order_by ''created_at'' False (data_or_empty (fst ?q2)))"
  have "reads_only b (snd ?q1)" by (rule reads_only_select)
  moreover have "reads_only (snd ?q1) (snd ?e1)" by (rule reads_only_enrich_emails)
  moreover have "reads_only (snd ?e1) (snd ?q2)" by (rule reads_only_select)
  moreover have "reads_only (snd ?q2) (snd ?e2)" by (rule reads_only_enrich_emails)
  ultimately have "reads_only b (snd ?e2)" using reads_only_trans by blast
  then show ?thesis by (simp add: fetchEventDetail_def split_beta)
qed

lemma requests_fetchEventDetail:
  "\<exists>rs. requests (snd (fetchEventDetail st b ev)) = requests b @ rs"
  using reads_only_fetchEventDetail [of b st ev] by (rule reads_only_fields(5))

section \<open>Writes\<close>

lemma matches_Nil: "matches [] r"
  by (simp add: matches_def)

lemma matches_one: "matches [(c, v)] = (\<lambda>r. \<exists>x. v = Some x \<and> col r c = Some x)"
  by (cases v) (simp_all add: matches_def fun_eq_iff)

lemma col_assign_one:
  "col (assign [(k, v)] r) c = (if c = k then Some v else col r c)"
  by (simp add: assign_def col_def update_conv')

lemma assign_one_twice: "assign [(k, v)] (assign [(k, w)] r) = assign [(k, v)] r"
  by (simp add: assign_def)

lemma insert_row_effect:
  "requests (snd (insert_row b t payload gen)) = requests b @ [Insert t payload]"
  "failing (snd (insert_row b t payload gen)) = failing b"
  "map_of (failing b) t = None \<Longrightarrow> fst (insert_row b t payload gen) = None"
  "map_of (failing b) t = None \<Longrightarrow>
     rows_of (snd (insert_row b t payload gen)) t' =
       (if t' = t then rows_of b t @ [assign payload gen] else rows_of b t')"
  "map_of (failing b) t = Some e \<Longrightarrow> fst (insert_row b t payload gen) = Some e"
  by (auto simp: insert_row_def sent_def rows_of_def update_conv' split: option.splits)

lemma update_rows_effect:
  "requests (snd (update_rows b t changes fs)) = requests b @ [Update t changes fs]"
  "failing (snd (update_rows b t changes fs)) = failing b"
  "map_of (failing b) t = None \<Longrightarrow>
     rows_of (snd (update_rows b t changes fs)) t' =
       (if t' = t then map (\<lambda>r. if matches fs r then assign changes r else r) (rows_of b t)
        else rows_of b t')"
  by (auto simp: update_rows_def sent_def rows_of_def update_conv' split: option.splits)

lemma storage_upload_ok:
  assumes "map_of (failing b) bucket = None" and "map_of (objects_of b bucket) path = None"
  shows "fst (storage_upload b bucket path file) = None"
    and "failing (snd (storage_upload b bucket path file)) = failing b"
    and "rows_of (snd (storage_upload b bucket path file)) t = rows_of b t"
  using assms by (simp_all add: storage_upload_def sent_def rows_of_def)

section \<open>Properties of the event catalog\<close>

lemma enrich_event_count:
  assumes "map_of (failing b) ''participants'' = None"
  shows "participant_count (fst (enrich_event user b ev)) =
           length (filter (\<lambda>p. \<exists>i. col ev ''id'' = Some i \<and> col p ''event_id'' = Some i)
                     (rows_of b ''participants''))"
    and "event (fst (enrich_event user b ev)) = ev"
proof -
  let ?b1 = "snd (select_rows b ''profiles'' [(''id'', col ev ''organizer_id'')])"
  have r: "reads_only b ?b1" by (rule reads_only_select)
  have "fst (count_rows ?b1 ''participants'' [(''event_id'', col ev ''id'')]) =
          Some (length (filter (matches [(''event_id'', col ev ''id'')])
                          (rows_of b ''participants'')))"
    using assms reads_only_fields(2,4) [OF r] by (simp add: count_rows_def)
  then show "participant_count (fst (enrich_event user b ev)) =
           length (filter (\<lambda>p. \<exists>i. col ev ''id'' = Some i \<and> col p ''event_id'' = Some i)
                     (rows_of b ''participants''))"
    by (simp add: enrich_event_def split_beta matches_one)
  show "event (fst (enrich_event user b ev)) = ev"
    by (simp add: enrich_event_def split_beta)
qed

lemma enrich_events_count:
  assumes "map_of (failing b) ''participants'' = None"
  shows "map event (fst (enrich_events user b evs)) = evs \<and>
         (\<forall>e \<in> set (fst (enrich_events user b evs)).
            participant_count e =
              length (filter (\<lambda>p. \<exists>i. col (event e) ''id'' = Some i \<and>
                                        col p ''event_id'' = Some i)
                        (rows_of b ''participants'')))"
  using assms
proof (induction evs arbitrary: b)
  case Nil
  show ?case by simp
next
  case (Cons ev evs)
  let ?b1 = "snd (enrich_event user b ev)"
  have r: "reads_only b ?b1" by (rule reads_only_enrich_event)
  have ok1: "map_of (failing ?b1) ''participants'' = None"
    using Cons.prems reads_only_fields(2) [OF r] by simp
  have rows: "rows_of ?b1 ''participants'' = rows_of b ''participants''"
    using reads_only_fields(4) [OF r] .
  note ih = Cons.IH [OF ok1, unfolded rows]
  note hd = enrich_event_count [OF Cons.prems, of user ev]
  show ?case using ih hd by (simp add: split_beta)
qed

text \<open>
  Claim C4. When the backend answers the requests to the events and the participants
  tables, \<^verbatim>\<open>fetchEvents\<close> lists every event of the table, and the participant count
  it reports for an event is the number of participation rows whose event id is that
  event's id. The status of a row plays no part in the count: pending, accepted and
  declined rows are counted alike.
\<close>

theorem fetchEvents_participant_count:
  assumes "map_of (failing b) ''events'' = None"
    and "map_of (failing b) ''participants'' = None"
  shows "map event (events (fst (fetchEvents st b))) =
           order_by ''event_date'' True (rows_of b ''events'') \<and>
         (\<forall>e \<in> set (events (fst (fetchEvents st b))).
            participant_count e =
              length (filter (\<lambda>p. \<exists>i. col (event e) ''id'' = Some i \<and>
                                        col p ''event_id'' = Some i)
                        (rows_of b ''participants'')))"
proof -
  let ?q = "select_rows b ''events'' []"
  have data: "fst ?q = Inr (rows_of b ''events'')"
    using assms(1) by (simp add: select_rows_def matches_Nil)
  have r: "reads_only b (snd ?q)" by (rule reads_only_select)
  have ok1: "map_of (failing (snd ?q)) ''participants'' = None"
    using assms(2) reads_only_fields(2) [OF r] by simp
  have rows: "rows_of (snd ?q) ''participants'' = rows_of b ''participants''"
    using reads_only_fields(4) [OF r] .
  let ?evs = "order_by ''event_date'' True (rows_of b ''events'')"
  note e = enrich_events_count [OF ok1, of "currentUser st" ?evs, unfolded rows]
  have "events (fst (fetchEvents st b)) = fst (enrich_events (currentUser st) (snd ?q) ?evs)"
    using data by (simp add: fetchEvents_def split_beta)
  then show ?thesis using e by simp
qed

theorem fetchEvents_participant_count_witness:
  "map_of (failing sample_backend) ''events'' = None \<and>
   map_of (failing sample_backend) ''participants'' = None \<and>
   map (\<lambda>e. (col (event e) ''id'', participant_count e))
     (events (fst (fetchEvents sample_page sample_backend))) =
     [(Some ''e1'', 3), (Some ''e2'', 1)] \<and>
   map (\<lambda>p. col p ''status'')
     (filter (\<lambda>p. col p ''event_id'' = Some ''e1'') (rows_of sample_backend ''participants'')) =
     [Some ''accepted'', Some ''declined'', Some ''pending'']"
  using fetchEvents_participant_count [of sample_backend sample_page]
  by (simp add: fetchEvents_def sample_page_def sample_user_def sample_backend_def
        select_rows_def sent_def rows_of_def matches_def order_by_def enrich_event_def
        count_rows_def col_def single_def)

section \<open>Properties of participation\<close>

lemma col_join_payload:
  "col (assign (join_payload eventId u) gen) ''status'' = Some ''accepted''"
  "col (assign (join_payload eventId u) gen) ''event_id'' = Some eventId"
  "col (assign (join_payload eventId u) gen) ''volunteer_id'' = Some (user_id u)"
  by (simp_all add: join_payload_def assign_def col_def update_conv')

text \<open>
  Claim C6. For every event id and every signed-in user, the first request
  \<^verbatim>\<open>handleJoinEvent\<close> sends is the insert of a participation row for that event and
  that user with status \<open>accepted\<close>, whatever the page state and the tables hold; when
  the backend accepts it, the table gains exactly that row. No row is ever inserted as
  \<open>pending\<close>, although the type's comment declares that status.
\<close>

theorem handleJoinEvent_accepted:
  assumes "currentUser st = Some u"
  shows "(\<exists>rest. requests (snd (handleJoinEvent st b gen eventId)) =
            requests b @ Insert ''participants''
              [(''event_id'', eventId), (''volunteer_id'', user_id u),
               (''status'', ''accepted'')] # rest) \<and>
         (map_of (failing b) ''participants'' = None \<longrightarrow>
            rows_of (snd (handleJoinEvent st b gen eventId)) ''participants'' =
              rows_of b ''participants'' @ [assign (join_payload eventId u) gen]) \<and>
         col (assign (join_payload eventId u) gen) ''status'' = Some ''accepted'' \<and>
         col (assign (join_payload eventId u) gen) ''event_id'' = Some eventId \<and>
         col (assign (join_payload eventId u) gen) ''volunteer_id'' = Some (user_id u) \<and>
         ''pending'' \<in> set Participant_status"
proof -
  let ?ins = "insert_row b ''participants'' (join_payload eventId u) gen"
  let ?b1 = "snd ?ins"
  have h: "handleJoinEvent st b gen eventId =
             (if fst ?ins = None then fetchEvents st ?b1 else (st, ?b1))"
    using assms by (simp add: handleJoinEvent_def split_beta)
  have req1: "requests ?b1 = requests b @ [Insert ''participants'' (join_payload eventId u)]"
    by (rule insert_row_effect(1))
  have ro: "reads_only ?b1 (snd (fetchEvents st ?b1))" by (rule reads_only_fetchEvents)
  have 1: "\<exists>rest. requests (snd (handleJoinEvent st b gen eventId)) =
            requests b @ Insert ''participants''
              [(''event_id'', eventId), (''volunteer_id'', user_id u),
               (''status'', ''accepted'')] # rest"
  proof (cases "fst ?ins = None")
    case True
    then have eq: "snd (handleJoinEvent st b gen eventId) = snd (fetchEvents st ?b1)"
      using h by simp
    obtain rs where "requests (snd (fetchEvents st ?b1)) = requests ?b1 @ rs"
      using reads_only_fields(5) [OF ro] by blast
    then have "requests (snd (handleJoinEvent st b gen eventId)) =
        requests b @ Insert ''participants'' (join_payload eventId u) # rs"
      using eq req1 by simp
    then show ?thesis unfolding join_payload_def by blast
  next
    case False
    then have eq: "snd (handleJoinEvent st b gen eventId) = ?b1"
      by (simp only: h if_False snd_conv)
    have "requests (snd (handleJoinEvent st b gen eventId)) =
        requests b @ Insert ''participants'' (join_payload eventId u) # []"
      using eq req1 by simp
    then show ?thesis unfolding join_payload_def by blast
  qed
  have 2: "map_of (failing b) ''participants'' = None \<longrightarrow>
            rows_of (snd (handleJoinEvent st b gen eventId)) ''participants'' =
              rows_of b ''participants'' @ [assign (join_payload eventId u) gen]"
  proof
    assume ok: "map_of (failing b) ''participants'' = None"
    have "fst ?ins = None" using ok by (rule insert_row_effect(3))
    then have "snd (handleJoinEvent st b gen eventId) = snd (fetchEvents st ?b1)"
      using h by simp
    moreover have "rows_of (snd (fetchEvents st ?b1)) ''participants'' =
        rows_of ?b1 ''participants''"
      using reads_only_fields(4) [OF ro] .
    moreover have "rows_of ?b1 ''participants'' =
        rows_of b ''participants'' @ [assign (join_payload eventId u) gen]"
      using insert_row_effect(4) [OF ok, of "join_payload eventId u" gen "''participants''"] by simp
    ultimately show "rows_of (snd (handleJoinEvent st b gen eventId)) ''participants'' =
              rows_of b ''participants'' @ [assign (join_payload eventId u) gen]"
      by simp
  qed
  show ?thesis using 1 2 by (simp add: col_join_payload Participant_status_def)
qed

theorem handleJoinEvent_accepted_witness:
  "currentUser sample_page = Some sample_user \<and>
   map_of (failing sample_backend) ''participants'' = None \<and>
   rows_of (snd (handleJoinEvent sample_page sample_backend [(''id'', ''p5'')] ''e2''))
       ''participants'' =
     rows_of sample_backend ''participants'' @
       [[(''id'', ''p5''), (''event_id'', ''e2''), (''volunteer_id'', ''b''),
         (''status'', ''accepted'')]] \<and>
   take 1 (requests (snd (handleJoinEvent sample_page sample_backend [(''id'', ''p5'')] ''e2''))) =
     [Insert ''participants''
        [(''event_id'', ''e2''), (''volunteer_id'', ''b''), (''status'', ''accepted'')]]"
  using handleJoinEvent_accepted
      [of sample_page sample_user sample_backend "[(''id'', ''p5'')]" "''e2''"]
  by (simp add: handleJoinEvent_def fetchEvents_def sample_page_def sample_user_def
        sample_backend_def insert_row_def select_rows_def sent_def rows_of_def matches_def
        order_by_def enrich_event_def count_rows_def col_def single_def join_payload_def
        assign_def)

lemma set_status_rows:
  assumes "map_of (failing b) ''participants'' = None"
  shows "rows_of (snd (handleUpdateParticipantStatus st b pid s)) ''participants'' =
           map (\<lambda>r. if col r ''id'' = Some pid
                    then assign [(''status'', decision_text s)] r else r)
             (rows_of b ''participants'')"
    and "failing (snd (handleUpdateParticipantStatus st b pid s)) = failing b"
proof -
  let ?u = "update_rows b ''participants'' [(''status'', decision_text s)] [(''id'', Some pid)]"
  have rows1: "rows_of (snd ?u) ''participants'' =
      map (\<lambda>r. if col r ''id'' = Some pid
               then assign [(''status'', decision_text s)] r else r)
        (rows_of b ''participants'')"
    using update_rows_effect(3)
        [OF assms, of "[(''status'', decision_text s)]" "[(''id'', Some pid)]" "''participants''"]
    by (simp add: matches_one)
  have f1: "failing (snd ?u) = failing b" by (rule update_rows_effect(2))
  show "rows_of (snd (handleUpdateParticipantStatus st b pid s)) ''participants'' =
           map (\<lambda>r. if col r ''id'' = Some pid
                    then assign [(''status'', decision_text s)] r else r)
             (rows_of b ''participants'')"
  proof (cases "selectedEvent st")
    case None
    then show ?thesis using rows1 by (simp add: handleUpdateParticipantStatus_def split_beta)
  next
    case (Some ev)
    have "reads_only (snd ?u) (snd (fetchEventDetail st (snd ?u) ev))"
      by (rule reads_only_fetchEventDetail)
    then have "rows_of (snd (fetchEventDetail st (snd ?u) ev)) ''participants'' =
        rows_of (snd ?u) ''participants''"
      by (rule reads_only_fields(4))
    then show ?thesis using Some rows1 by (simp add: handleUpdateParticipantStatus_def split_beta)
  qed
  show "failing (snd (handleUpdateParticipantStatus st b pid s)) = failing b"
  proof (cases "selectedEvent st")
    case None
    then show ?thesis using f1 by (simp add: handleUpdateParticipantStatus_def split_beta)
  next
    case (Some ev)
    have "reads_only (snd ?u) (snd (fetchEventDetail st (snd ?u) ev))"
      by (rule reads_only_fetchEventDetail)
    then have "failing (snd (fetchEventDetail st (snd ?u) ev)) = failing (snd ?u)"
      by (rule reads_only_fields(2))
    then show ?thesis using Some f1 by (simp add: handleUpdateParticipantStatus_def split_beta)
  qed
qed

lemma set_status_twice:
  "map (\<lambda>r. if col r ''id'' = Some pid then assign [(''status'', v)] r else r)
     (map (\<lambda>r. if col r ''id'' = Some pid then assign [(''status'', w)] r else r) rs) =
   map (\<lambda>r. if col r ''id'' = Some pid then assign [(''status'', v)] r else r) rs"
  by (induction rs) (simp_all add: col_assign_one assign_one_twice)

text \<open>
  Claim C7. On a backend that answers the requests to the participants table, setting
  the status of a participation record sets it to the value asked for, whatever it was
  before; declining and then accepting the record leaves it accepted, and doing both
  again leaves the table as it was after the first time.
\<close>

theorem setStatus_declined_then_accepted:
  assumes "map_of (failing b) ''participants'' = None"
    and "p \<in> set (rows_of b ''participants'')" and "col p ''id'' = Some pid"
  shows "rows_of (snd (handleUpdateParticipantStatus st b pid s)) ''participants'' =
           map (\<lambda>r. if col r ''id'' = Some pid
                    then assign [(''status'', decision_text s)] r else r)
             (rows_of b ''participants'') \<and>
         (let r1 = handleUpdateParticipantStatus st b pid declined;
              r2 = handleUpdateParticipantStatus (fst r1) (snd r1) pid accepted;
              r3 = handleUpdateParticipantStatus (fst r2) (snd r2) pid declined;
              r4 = handleUpdateParticipantStatus (fst r3) (snd r3) pid accepted
          in rows_of (snd r2) ''participants'' =
               map (\<lambda>r. if col r ''id'' = Some pid
                        then assign [(''status'', ''accepted'')] r else r)
                 (rows_of b ''participants'') \<and>
             assign [(''status'', ''accepted'')] p \<in> set (rows_of (snd r2) ''participants'') \<and>
             (\<forall>q \<in> set (rows_of (snd r2) ''participants'').
                col q ''id'' = Some pid \<longrightarrow> col q ''status'' = Some ''accepted'') \<and>
             rows_of (snd r4) ''participants'' = rows_of (snd r2) ''participants'')"
proof -
  define r1 where "r1 = handleUpdateParticipantStatus st b pid declined"
  define r2 where "r2 = handleUpdateParticipantStatus (fst r1) (snd r1) pid accepted"
  define r3 where "r3 = handleUpdateParticipantStatus (fst r2) (snd r2) pid declined"
  define r4 where "r4 = handleUpdateParticipantStatus (fst r3) (snd r3) pid accepted"
  let ?set = "\<lambda>v r. if col r ''id'' = Some pid then assign [(''status'', v)] r else r"
  let ?P = "rows_of b ''participants''"
  have ok1: "map_of (failing (snd r1)) ''participants'' = None"
    using assms(1) set_status_rows(2) [OF assms(1), of st pid declined] by (simp add: r1_def)
  have ok2: "map_of (failing (snd r2)) ''participants'' = None"
    using ok1 set_status_rows(2) [OF ok1, of "fst r1" pid accepted] by (simp add: r2_def)
  have ok3: "map_of (failing (snd r3)) ''participants'' = None"
    using ok2 set_status_rows(2) [OF ok2, of "fst r2" pid declined] by (simp add: r3_def)
  have any: "rows_of (snd (handleUpdateParticipantStatus st b pid s)) ''participants'' =
              map (?set (decision_text s)) ?P"
    by (rule set_status_rows(1) [OF assms(1)])
  have s1: "rows_of (snd r1) ''participants'' = map (?set ''declined'') ?P"
    using set_status_rows(1) [OF assms(1), of st pid declined] by (simp add: r1_def)
  have s2: "rows_of (snd r2) ''participants'' = map (?set ''accepted'') ?P"
    using set_status_rows(1) [OF ok1, of "fst r1" pid accepted] s1
    by (simp only: r2_def decision_text.simps set_status_twice)
  have s3: "rows_of (snd r3) ''participants'' = map (?set ''declined'') ?P"
    using set_status_rows(1) [OF ok2, of "fst r2" pid declined] s2
    by (simp only: r3_def decision_text.simps set_status_twice)
  have s4: "rows_of (snd r4) ''participants'' = map (?set ''accepted'') ?P"
    using set_status_rows(1) [OF ok3, of "fst r3" pid accepted] s3
    by (simp only: r4_def decision_text.simps set_status_twice)
  have mem: "assign [(''status'', ''accepted'')] p \<in> set (rows_of (snd r2) ''participants'')"
  proof -
    have "?set ''accepted'' p \<in> set (map (?set ''accepted'') ?P)"
      using assms(2) by (rule imageI [of p "set ?P" "?set ''accepted''", folded set_map])
    then show ?thesis using assms(3) s2 by simp
  qed
  have all: "\<forall>q \<in> set (rows_of (snd r2) ''participants'').
               col q ''id'' = Some pid \<longrightarrow> col q ''status'' = Some ''accepted''"
    unfolding s2 by (auto simp: col_assign_one)
  show ?thesis
    using any s2 s4 mem all
    unfolding Let_def r1_def [symmetric] r2_def [symmetric] r3_def [symmetric] r4_def [symmetric]
    by simp
qed

theorem setStatus_declined_then_accepted_witness:
  "map_of (failing sample_backend) ''participants'' = None \<and>
   [(''id'', ''p3''), (''event_id'', ''e1''), (''volunteer_id'', ''d''), (''status'', ''pending'')]
     \<in> set (rows_of sample_backend ''participants'') \<and>
   (let r1 = handleUpdateParticipantStatus detail_page sample_backend ''p3'' declined;
        r2 = handleUpdateParticipantStatus (fst r1) (snd r1) ''p3'' accepted;
        r3 = handleUpdateParticipantStatus (fst r2) (snd r2) ''p3'' declined;
        r4 = handleUpdateParticipantStatus (fst r3) (snd r3) ''p3'' accepted
    in map (\<lambda>q. (col q ''id'', col q ''status'')) (rows_of (snd r1) ''participants'') =
         [(Some ''p1'', Some ''accepted''), (Some ''p2'', Some ''declined''),
          (Some ''p3'', Some ''declined''), (Some ''p4'', Some ''declined'')] \<and>
       map (\<lambda>q. (col q ''id'', col q ''status'')) (rows_of (snd r2) ''participants'') =
         [(Some ''p1'', Some ''accepted''), (Some ''p2'', Some ''declined''),
          (Some ''p3'', Some ''accepted''), (Some ''p4'', Some ''declined'')] \<and>
       rows_of (snd r4) ''participants'' = rows_of (snd r2) ''participants'')"
proof -
  let ?p = "[(''id'', ''p3''), (''event_id'', ''e1''), (''volunteer_id'', ''d''),
             (''status'', ''pending'')]"
  have rows: "rows_of sample_backend ''participants'' =
    [[(''id'', ''p1''), (''event_id'', ''e1''), (''volunteer_id'', ''b''),
      (''status'', ''accepted'')],
     [(''id'', ''p2''), (''event_id'', ''e1''), (''volunteer_id'', ''c''),
      (''status'', ''declined'')],
     [(''id'', ''p3''), (''event_id'', ''e1''), (''volunteer_id'', ''d''),
      (''status'', ''pending'')],
     [(''id'', ''p4''), (''event_id'', ''e2''), (''volunteer_id'', ''b''),
      (''status'', ''declined'')]]"
    by (simp add: sample_backend_def rows_of_def)
  have h1: "map_of (failing sample_backend) ''participants'' = None"
    by (simp add: sample_backend_def)
  have h2: "?p \<in> set (rows_of sample_backend ''participants'')" by (simp add: rows)
  have h3: "col ?p ''id'' = Some ''p3''" by (simp add: col_def)
  note t = setStatus_declined_then_accepted
      [OF h1 h2 h3, of detail_page declined, unfolded Let_def rows]
  show ?thesis
    unfolding Let_def using h1 h2 t by (simp add: col_def assign_def)
qed

section \<open>Properties of the event form\<close>

text \<open>
  Claim C5, as amended. With nobody signed in, submitting the form does nothing at
  all: no error is shown and no request is sent. With a user signed in and the title,
  the location or the date empty, the submit ends with the message
  \<open>Title, location, and date are required.\<close> as the form's error and the loading flag
  off; the rest of the page state and the whole backend, its request log included, are
  as before. A submit that sends any request at all comes from a signed-in user and a
  form whose three fields are non-empty.
\<close>

theorem handleEventFormSubmit_validation:
  "(currentUser st = None \<longrightarrow> handleEventFormSubmit st b toISOString gen = (st, b)) \<and>
   (currentUser st \<noteq> None \<and>
    (title (eventForm st) = [] \<or> location (eventForm st) = [] \<or> event_date (eventForm st) = [])
      \<longrightarrow> handleEventFormSubmit st b toISOString gen =
            (st\<lparr>formLoading := False, formError := required_fields_message\<rparr>, b)) \<and>
   (requests (snd (handleEventFormSubmit st b toISOString gen)) \<noteq> requests b
      \<longrightarrow> currentUser st \<noteq> None \<and> title (eventForm st) \<noteq> [] \<and>
          location (eventForm st) \<noteq> [] \<and> event_date (eventForm st) \<noteq> [])"
proof -
  have c1: "currentUser st = None \<longrightarrow> handleEventFormSubmit st b toISOString gen = (st, b)"
    by (simp add: handleEventFormSubmit_def)
  have c2: "currentUser st \<noteq> None \<and>
    (title (eventForm st) = [] \<or> location (eventForm st) = [] \<or> event_date (eventForm st) = [])
      \<longrightarrow> handleEventFormSubmit st b toISOString gen =
            (st\<lparr>formLoading := False, formError := required_fields_message\<rparr>, b)"
    by (auto simp: handleEventFormSubmit_def Let_def)
  have c3: "requests (snd (handleEventFormSubmit st b toISOString gen)) \<noteq> requests b
      \<longrightarrow> currentUser st \<noteq> None \<and> title (eventForm st) \<noteq> [] \<and>
          location (eventForm st) \<noteq> [] \<and> event_date (eventForm st) \<noteq> []"
  proof (rule impI, rule ccontr)
    assume r: "requests (snd (handleEventFormSubmit st b toISOString gen)) \<noteq> requests b"
    assume "\<not> (currentUser st \<noteq> None \<and> title (eventForm st) \<noteq> [] \<and>
          location (eventForm st) \<noteq> [] \<and> event_date (eventForm st) \<noteq> [])"
    then have "snd (handleEventFormSubmit st b toISOString gen) = b"
      by (cases "currentUser st") (auto simp: handleEventFormSubmit_def Let_def)
    with r show False by simp
  qed
  show ?thesis using c1 c2 c3 by blast
qed

theorem handleEventFormSubmit_validation_witness:
  "handleEventFormSubmit signed_out_page sample_backend Some [(''id'', ''e3'')] =
     (signed_out_page, sample_backend) \<and>
   location (eventForm form_page) = [] \<and>
   handleEventFormSubmit form_page sample_backend Some [(''id'', ''e3'')] =
     (form_page\<lparr>formLoading := False,
                formError := ''Title, location, and date are required.''\<rparr>,
      sample_backend) \<and>
   take 1 (requests (snd (handleEventFormSubmit filled_page sample_backend Some
                            [(''id'', ''e3'')]))) =
     [Insert ''events'' [(''organizer_id'', ''b''), (''title'', ''Bucana Beach Clean-up''),
        (''description'', ''Bring gloves''), (''location'', ''Bucana Beach''),
        (''event_date'', ''2024-06-01T08:00'')]] \<and>
   title (eventForm filled_page) \<noteq> [] \<and> location (eventForm filled_page) \<noteq> [] \<and>
   event_date (eventForm filled_page) \<noteq> []"
proof -
  let ?gen = "[(''id'', ''e3'')]"
  have h0: "currentUser signed_out_page = None" by (simp add: signed_out_page_def)
  have h1: "currentUser form_page \<noteq> None \<and>
    (title (eventForm form_page) = [] \<or> location (eventForm form_page) = [] \<or>
     event_date (eventForm form_page) = [])"
    by (simp add: form_page_def sample_page_def)
  have req: "take 1 (requests (snd (handleEventFormSubmit filled_page sample_backend Some ?gen))) =
     [Insert ''events'' [(''organizer_id'', ''b''), (''title'', ''Bucana Beach Clean-up''),
        (''description'', ''Bring gloves''), (''location'', ''Bucana Beach''),
        (''event_date'', ''2024-06-01T08:00'')]]"
    by (simp add: handleEventFormSubmit_def filled_page_def form_page_def sample_page_def
          sample_user_def sample_backend_def Let_def insert_row_def event_fields_def
          fetchEvents_def select_rows_def sent_def rows_of_def matches_def order_by_def
          enrich_event_def count_rows_def col_def single_def assign_def)
  then have h2: "requests (snd (handleEventFormSubmit filled_page sample_backend Some ?gen)) \<noteq>
      requests sample_backend"
    by (auto simp: sample_backend_def)
  note t0 = handleEventFormSubmit_validation [of signed_out_page sample_backend Some ?gen]
  note t1 = handleEventFormSubmit_validation [of form_page sample_backend Some ?gen]
  note t2 = handleEventFormSubmit_validation [of filled_page sample_backend Some ?gen]
  from t0 h0
  have c0: "handleEventFormSubmit signed_out_page sample_backend Some ?gen =
      (signed_out_page, sample_backend)"
    by blast
  from t1 h1
  have c1: "handleEventFormSubmit form_page sample_backend Some ?gen =
     (form_page\<lparr>formLoading := False, formError := required_fields_message\<rparr>, sample_backend)"
    by blast
  from t2 h2
  have c2: "title (eventForm filled_page) \<noteq> [] \<and> location (eventForm filled_page) \<noteq> [] \<and>
      event_date (eventForm filled_page) \<noteq> []"
    by blast
  have c3: "location (eventForm form_page) = []" by (simp add: form_page_def)
  show ?thesis using c0 c1 c2 c3 req by (simp add: required_fields_message_def)
qed

text \<open>
  Claim C5 as stated fails: with nobody signed in, a form whose location is empty is
  submitted without any error being shown.
\<close>

theorem handleEventFormSubmit_signed_out:
  "location (eventForm signed_out_page) = [] \<and>
   formError signed_out_page = [] \<and>
   handleEventFormSubmit signed_out_page sample_backend Some [] =
     (signed_out_page, sample_backend) \<and>
   formError (fst (handleEventFormSubmit signed_out_page sample_backend Some [])) = []"
  by (simp add: handleEventFormSubmit_def signed_out_page_def form_page_def sample_page_def)

section \<open>Properties of the photo upload\<close>

lemma set_insert_by: "set (insert_by le x ys) = insert x (set ys)"
  by (induction ys) auto

lemma set_order_by: "set (order_by c ascending rs) = set rs"
  unfolding order_by_def by (induction rs) (simp_all add: set_insert_by)

lemma enrich_emails_rows:
  "x \<in> set (fst (enrich_emails b c rs)) \<Longrightarrow> \<exists>r \<in> set rs. \<exists>e. x = assign [(''email'', e)] r"
  by (induction rs arbitrary: b) (auto simp: split_beta)

lemma enrich_emails_keeps:
  "r \<in> set rs \<Longrightarrow> \<exists>e. assign [(''email'', e)] r \<in> set (fst (enrich_emails b c rs))"
  by (induction rs arbitrary: b) (auto simp: split_beta)

lemma upload_payload_with_id:
  assumes "col (event ev) ''id'' = Some eid"
  shows "upload_payload u url ev =
           [(''user_id'', user_id u), (''image_url'', url), (''category'', ''event''),
            (''event_id'', eid)]"
  using assms by (simp add: upload_payload_def object_def)

lemma col_upload_row:
  "col (assign [(''user_id'', uid), (''image_url'', url), (''category'', ''event''),
                (''event_id'', eid)] gen) c =
     (if c = ''event_id'' then Some eid
      else if c = ''category'' then Some ''event''
      else if c = ''image_url'' then Some url
      else if c = ''user_id'' then Some uid
      else col gen c)"
  by (simp add: assign_def col_def update_conv')

text \<open>
  The uploads \<^verbatim>\<open>fetchEventDetail\<close> shows, when the backend answers the request to the
  uploads table: the rows of the table whose event id is the event's, each with an email.
\<close>

lemma fetchEventDetail_uploads:
  assumes "map_of (failing b) ''uploads'' = None"
  shows "\<exists>b'. eventUploads (fst (fetchEventDetail st b ev)) =
           fst (enrich_emails b' ''user_id''
             (order_by ''created_at'' False
                (filter (matches [(''event_id'', col (event ev) ''id'')]) (rows_of b ''uploads''))))"
proof -
  let ?q1 = "select_rows b ''participants'' [(''event_id'', col (event ev) ''id'')]"
  let ?e1 = "enrich_emails (snd ?q1) ''volunteer_id'' (data_or_empty (fst ?q1))"
  let ?q2 = "select_rows (snd ?e1) ''uploads'' [(''event_id'', col (event ev) ''id'')]"
  have "reads_only b (snd ?q1)" by (rule reads_only_select)
  moreover have "reads_only (snd ?q1) (snd ?e1)" by (rule reads_only_enrich_emails)
  ultimately have r: "reads_only b (snd ?e1)" by (rule reads_only_trans)
  have "fst ?q2 = Inr (filter (matches [(''event_id'', col (event ev) ''id'')])
                         (rows_of b ''uploads''))"
    using assms reads_only_fields(2,4) [OF r] by (simp add: select_rows_def)
  then have "eventUploads (fst (fetchEventDetail st b ev)) =
           fst (enrich_emails (snd ?q2) ''user_id''
             (order_by ''created_at'' False
                (filter (matches [(''event_id'', col (event ev) ''id'')]) (rows_of b ''uploads''))))"
    by (simp add: fetchEventDetail_def split_beta data_or_empty_def)
  then show ?thesis by blast
qed

text \<open>
  Claim C2. The record \<^verbatim>\<open>handleImageUpload\<close> adds to the uploads table, when the
  backend accepts the file and the row, carries the uploader's id, the image's public
  URL, a category and, as an attribute of its own, the id of the event, beside the id and
  the creation time the backend fills in. The category is the tag \<open>event\<close>, which is none
  of the waste categories of the classifier, so that it tells an event photo from a waste
  classification. The event id is what links the photo to its event: the detail view the
  handler then reloads shows the uploads whose event id is that of the event, the new
  record among them.
\<close>

theorem handleImageUpload_record:
  assumes "currentUser st = Some u" and "selectedEvent st = Some ev"
    and "col (event ev) ''id'' = Some eid"
    and "map_of (failing b) ''event-images'' = None"
    and "map_of (objects_of b ''event-images'')
           (eid @ ''/'' @ user_id u @ ''/'' @ now @ ''_'' @ file_name file) = None"
    and "map_of (failing b) ''uploads'' = None"
  shows "let url = getPublicUrl ''event-images''
                     (eid @ ''/'' @ user_id u @ ''/'' @ now @ ''_'' @ file_name file);
             new = assign [(''user_id'', user_id u), (''image_url'', url),
                           (''category'', ''event''), (''event_id'', eid)] gen;
             r = handleImageUpload st b getPublicUrl gen now file
         in rows_of (snd r) ''uploads'' = rows_of b ''uploads'' @ [new] \<and>
            col new ''user_id'' = Some (user_id u) \<and> col new ''image_url'' = Some url \<and>
            col new ''category'' = Some ''event'' \<and> col new ''event_id'' = Some eid \<and>
            col new ''id'' = col gen ''id'' \<and> col new ''created_at'' = col gen ''created_at'' \<and>
            ''event'' \<notin> set mockCategories \<and>
            (\<forall>x \<in> set (eventUploads (fst r)). col x ''event_id'' = Some eid) \<and>
            (\<exists>e. assign [(''email'', e)] new \<in> set (eventUploads (fst r)))"
proof -
  let ?path = "eid @ ''/'' @ user_id u @ ''/'' @ now @ ''_'' @ file_name file"
  let ?url = "getPublicUrl ''event-images'' ?path"
  let ?payload = "[(''user_id'', user_id u), (''image_url'', ?url), (''category'', ''event''),
                   (''event_id'', eid)]"
  let ?new = "assign ?payload gen"
  let ?up = "storage_upload b ''event-images'' ?path file"
  let ?b1 = "snd ?up"
  let ?ins = "insert_row ?b1 ''uploads'' ?payload gen"
  let ?b2 = "snd ?ins"
  let ?st2 = "st\<lparr>uploadLoading := True, uploadError := '''', uploadLoading := False\<rparr>"
  let ?r = "handleImageUpload st b getPublicUrl gen now file"
  note free = assms(5)
  have up: "fst ?up = None" using assms(4) free by (rule storage_upload_ok(1))
  have f1: "map_of (failing ?b1) ''uploads'' = None"
    using assms(6) storage_upload_ok(2) [OF assms(4) free] by simp
  have rows1: "rows_of ?b1 ''uploads'' = rows_of b ''uploads''"
    using assms(4) free by (rule storage_upload_ok(3))
  have ins: "fst ?ins = None" using f1 by (rule insert_row_effect(3))
  have f2: "map_of (failing ?b2) ''uploads'' = None"
    using f1 by (simp add: insert_row_effect(2))
  have rows2: "rows_of ?b2 ''uploads'' = rows_of b ''uploads'' @ [?new]"
    using insert_row_effect(4) [OF f1, of ?payload gen "''uploads''"] rows1 by simp
  have pay: "upload_payload u ?url ev = ?payload"
    using assms(3) by (rule upload_payload_with_id)
  have h: "?r = fetchEventDetail ?st2 ?b2 ev"
    using assms(1,2,3) up ins pay
    by (simp add: handleImageUpload_def template_text_def Let_def split_beta
          split: option.splits)
  have ro: "reads_only ?b2 (snd (fetchEventDetail ?st2 ?b2 ev))"
    by (rule reads_only_fetchEventDetail)
  have rows: "rows_of (snd ?r) ''uploads'' = rows_of b ''uploads'' @ [?new]"
    using reads_only_fields(4) [OF ro, of "''uploads''"] rows2 h by simp
  obtain b' where shown: "eventUploads (fst ?r) =
      fst (enrich_emails b' ''user_id''
        (order_by ''created_at'' False
           (filter (matches [(''event_id'', Some eid)]) (rows_of b ''uploads'' @ [?new]))))"
    using fetchEventDetail_uploads [OF f2, of ?st2 ev] h assms(3) rows2 by auto
  let ?sel = "filter (matches [(''event_id'', Some eid)]) (rows_of b ''uploads'' @ [?new])"
  have new_id: "col ?new ''event_id'' = Some eid" by (simp add: col_upload_row)
  have all: "\<forall>x \<in> set (eventUploads (fst ?r)). col x ''event_id'' = Some eid"
  proof
    fix x assume "x \<in> set (eventUploads (fst ?r))"
    then obtain r e where r: "r \<in> set (order_by ''created_at'' False ?sel)"
      and x: "x = assign [(''email'', e)] r"
      unfolding shown using enrich_emails_rows by blast
    from r have "r \<in> set ?sel" by (simp only: set_order_by)
    then have "matches [(''event_id'', Some eid)] r" by (simp only: set_filter mem_Collect_eq)
    then have "col r ''event_id'' = Some eid" by (simp add: matches_one)
    then show "col x ''event_id'' = Some eid" by (simp add: x col_assign_one)
  qed
  have "matches [(''event_id'', Some eid)] ?new" using new_id by (simp add: matches_one)
  then have "?new \<in> set ?sel" by simp
  then have "?new \<in> set (order_by ''created_at'' False ?sel)" by (simp only: set_order_by)
  then have ex: "\<exists>e. assign [(''email'', e)] ?new \<in> set (eventUploads (fst ?r))"
    unfolding shown by (rule enrich_emails_keeps)
  have tag: "''event'' \<notin> set mockCategories" by (simp add: mockCategories_def)
  show ?thesis
    unfolding Let_def
    using rows all ex tag
    by (simp add: col_upload_row)
qed

theorem handleImageUpload_record_witness:
  "rows_of (snd (handleImageUpload detail_page photo_backend sample_getPublicUrl
                   [(''id'', ''u1''), (''created_at'', ''2024-06-01T10:00:00+00:00'')]
                   ''1717236000000'' sample_photo)) ''uploads'' =
     [[(''id'', ''u0''), (''created_at'', ''2024-07-01T09:00:00+00:00''), (''user_id'', ''b''),
       (''image_url'', ''https://cdn/event-images/e2/b/1_river.jpg''),
       (''category'', ''event''), (''event_id'', ''e2'')],
      [(''id'', ''u1''), (''created_at'', ''2024-06-01T10:00:00+00:00''), (''user_id'', ''b''),
       (''image_url'', ''https://cdn/event-images/e1/b/1717236000000_beach.jpg''),
       (''category'', ''event''), (''event_id'', ''e1'')]] \<and>
   eventUploads (fst (handleImageUpload detail_page photo_backend sample_getPublicUrl
                   [(''id'', ''u1''), (''created_at'', ''2024-06-01T10:00:00+00:00'')]
                   ''1717236000000'' sample_photo)) =
     [[(''id'', ''u1''), (''created_at'', ''2024-06-01T10:00:00+00:00''), (''user_id'', ''b''),
       (''image_url'', ''https://cdn/event-images/e1/b/1717236000000_beach.jpg''),
       (''category'', ''event''), (''event_id'', ''e1''), (''email'', ''b@x.ph'')]]"
proof -
  let ?gen = "[(''id'', ''u1''), (''created_at'', ''2024-06-01T10:00:00+00:00'')]"
  have h1: "currentUser detail_page = Some sample_user"
    by (simp add: detail_page_def sample_page_def)
  have h2: "selectedEvent detail_page = Some sample_event"
    by (simp add: detail_page_def)
  have h3: "col (event sample_event) ''id'' = Some ''e1''"
    by (simp add: sample_event_def col_def)
  have h4: "map_of (failing photo_backend) ''event-images'' = None"
    by (simp add: photo_backend_def sample_backend_def)
  have h5: "map_of (objects_of photo_backend ''event-images'')
      (''e1'' @ ''/'' @ user_id sample_user @ ''/'' @ ''1717236000000'' @ ''_'' @
       file_name sample_photo) = None"
    by (simp add: photo_backend_def sample_backend_def objects_of_def)
  have h6: "map_of (failing photo_backend) ''uploads'' = None"
    by (simp add: photo_backend_def sample_backend_def)
  note t = handleImageUpload_record
      [OF h1 h2 h3 h4 h5 h6, of sample_getPublicUrl ?gen, unfolded Let_def]
  have shown: "eventUploads (fst (handleImageUpload detail_page photo_backend
        sample_getPublicUrl ?gen ''1717236000000'' sample_photo)) =
     [[(''id'', ''u1''), (''created_at'', ''2024-06-01T10:00:00+00:00''), (''user_id'', ''b''),
       (''image_url'', ''https://cdn/event-images/e1/b/1717236000000_beach.jpg''),
       (''category'', ''event''), (''event_id'', ''e1''), (''email'', ''b@x.ph'')]]"
    by (simp add: handleImageUpload_def detail_page_def sample_page_def sample_user_def
          sample_event_def sample_photo_def photo_backend_def sample_backend_def
          sample_getPublicUrl_def template_text_def upload_payload_def object_def
          storage_upload_def objects_of_def insert_row_def fetchEventDetail_def
          select_rows_def sent_def rows_of_def matches_def order_by_def col_def single_def
          assign_def data_or_empty_def email_or_unknown_def Let_def)
  have rows: "rows_of photo_backend ''uploads'' =
     [[(''id'', ''u0''), (''created_at'', ''2024-07-01T09:00:00+00:00''), (''user_id'', ''b''),
       (''image_url'', ''https://cdn/event-images/e2/b/1_river.jpg''),
       (''category'', ''event''), (''event_id'', ''e2'')]]"
    by (simp add: photo_backend_def sample_backend_def rows_of_def)
  from t have "rows_of (snd (handleImageUpload detail_page photo_backend sample_getPublicUrl
                   ?gen ''1717236000000'' sample_photo)) ''uploads'' =
      rows_of photo_backend ''uploads'' @
        [assign [(''user_id'', user_id sample_user),
                 (''image_url'', sample_getPublicUrl ''event-images''
                    (''e1'' @ ''/'' @ user_id sample_user @ ''/'' @ ''1717236000000'' @ ''_'' @
                     file_name sample_photo)),
                 (''category'', ''event''), (''event_id'', ''e1'')] ?gen]"
    by (rule conjunct1)
  then show ?thesis
    using shown
    by (simp add: rows assign_def sample_user_def sample_photo_def sample_getPublicUrl_def)
qed

end
